theory Spec2Isabelle
  imports Complex_Main "HOL-Library.Word" "HOL-Library.AList"
begin

section \<open>Python values used by scripts/server.py\<close>

text \<open>
  A Python \<open>str\<close> is a sequence of Unicode code points and \<open>len\<close> counts code points,
  so a string is modelled as the list of its code points. \<open>lit\<close> turns an ASCII literal
  of the source into that representation.
\<close>

type_synonym codepoint = nat
type_synonym pystr = "codepoint list"

definition lit :: "string \<Rightarrow> pystr" where
  "lit s = map of_char s"

text \<open>\<open>sep.join(parts)\<close>.\<close>

fun py_join :: "pystr \<Rightarrow> pystr list \<Rightarrow> pystr" where
  "py_join sep [] = []"
| "py_join sep [x] = x"
| "py_join sep (x # y # ys) = x @ sep @ py_join sep (y # ys)"

text \<open>
  A message is a \<open>dict[str, str]\<close>, as \<open>build_prompt\<close> declares it: a finite map from
  keys to strings, in which any key may be absent. \<open>d.get(k, default)\<close> never raises.
\<close>

type_synonym msg = "pystr \<rightharpoonup> pystr"

definition dict_get :: "('k \<rightharpoonup> 'v) \<Rightarrow> 'k \<Rightarrow> 'v \<Rightarrow> 'v" where
  "dict_get d k dflt = (case d k of None \<Rightarrow> dflt | Some v \<Rightarrow> v)"

section \<open>build\_prompt\<close>

text \<open>
  The loop of \<open>build_prompt\<close>: the second argument is the list \<open>transcript\<close> built so
  far, to which each iteration appends the line \<open>f"{role}: {content}"\<close>.
\<close>

fun build_transcript :: "msg list \<Rightarrow> pystr list \<Rightarrow> pystr list" where
  "build_transcript [] transcript = transcript"
| "build_transcript (m # rest) transcript =
     (let role = dict_get m (lit ''role'') (lit ''user'');
          content = dict_get m (lit ''content'') (lit '''')
      in build_transcript rest (transcript @ [role @ lit '': '' @ content]))"

definition build_prompt :: "msg list \<Rightarrow> pystr" where
  "build_prompt messages =
     py_join (lit [CHR 0x0A]) (build_transcript messages [] @ [lit ''assistant:''])"

text \<open>The line the specification writes as \<open>"{role}: {content}"\<close> for one message.\<close>

definition message_line :: "msg \<Rightarrow> pystr" where
  "message_line m =
     dict_get m (lit ''role'') (lit ''user'') @ lit '': '' @ dict_get m (lit ''content'') []"

section \<open>String and number operations of the handler\<close>

text \<open>
  \<open>str.isspace\<close> on one code point: the code points CPython treats as whitespace, which
  are the ones \<open>str.strip()\<close> removes from both ends.
\<close>

definition py_isspace :: "codepoint \<Rightarrow> bool" where
  "py_isspace c \<longleftrightarrow>
     (0x09 \<le> c \<and> c \<le> 0x0D) \<or> (0x1C \<le> c \<and> c \<le> 0x20) \<or> c = 0x85 \<or> c = 0xA0
     \<or> c = 0x1680 \<or> (0x2000 \<le> c \<and> c \<le> 0x200A) \<or> c = 0x2028 \<or> c = 0x2029
     \<or> c = 0x202F \<or> c = 0x205F \<or> c = 0x3000"

definition py_strip :: "pystr \<Rightarrow> pystr" where
  "py_strip s = rev (dropWhile py_isspace (rev (dropWhile py_isspace s)))"

definition py_len :: "'a list \<Rightarrow> int" where
  "py_len xs = int (length xs)"

text \<open>
  The slices \<open>s[i:]\<close> and \<open>s[:j]\<close>: a negative index counts from the end, and an index
  outside the string is clamped, so a slice never raises.
\<close>

definition slice_index :: "'a list \<Rightarrow> int \<Rightarrow> nat" where
  "slice_index s i = nat (if i < 0 then max 0 (i + py_len s) else min i (py_len s))"

definition py_slice_from :: "'a list \<Rightarrow> int \<Rightarrow> 'a list" where
  "py_slice_from s i = drop (slice_index s i) s"

definition py_slice_to :: "'a list \<Rightarrow> int \<Rightarrow> 'a list" where
  "py_slice_to s j = take (slice_index s j) s"

text \<open>\<open>a or b\<close> on strings: the empty string is the only falsy one.\<close>

definition py_or :: "pystr \<Rightarrow> pystr \<Rightarrow> pystr" where
  "py_or a b = (if a \<noteq> [] then a else b)"

text \<open>
  A Python \<open>float\<close>: a finite value (the real number it denotes), an infinity or NaN.
  \<open>float_gt_int\<close> is the comparison \<open>x > n\<close> of a float with an \<open>int\<close>, which is exact and
  false on NaN.
\<close>

datatype pyfloat = Finite real | PosInf | NegInf | NaN

fun float_gt_int :: "pyfloat \<Rightarrow> int \<Rightarrow> bool" where
  "float_gt_int (Finite r) n = (real_of_int n < r)"
| "float_gt_int PosInf n = True"
| "float_gt_int NegInf n = False"
| "float_gt_int NaN n = False"

text \<open>The binary64 values that the literals \<open>0.7\<close> and \<open>0.8\<close> of the source denote.\<close>

definition float_0_7 :: pyfloat where
  "float_0_7 = Finite (3152519739159347 / 2 ^ 52)"

definition float_0_8 :: pyfloat where
  "float_0_8 = Finite (3602879701896397 / 2 ^ 52)"

text \<open>\<open>int(x)\<close> on a finite float truncates towards zero.\<close>

definition int_of_time :: "real \<Rightarrow> int" where
  "int_of_time t = (if 0 \<le> t then \<lfloor>t\<rfloor> else \<lceil>t\<rceil>)"

text \<open>
  \<open>uuid.uuid4().hex\<close> is \<open>'%032x' % self.int\<close>: the lowercase hexadecimal digits of the
  128-bit value, most significant first, padded with zeros on the left to 32 characters.
\<close>

definition hex_digit :: "nat \<Rightarrow> codepoint" where
  "hex_digit d = (if d < 10 then 0x30 + d else 0x61 + (d - 10))"

fun to_hex :: "nat \<Rightarrow> pystr" where
  "to_hex n = (if n < 16 then [hex_digit n] else to_hex (n div 16) @ [hex_digit (n mod 16)])"

declare to_hex.simps [simp del]

definition format_032x :: "nat \<Rightarrow> pystr" where
  "format_032x n = (let ds = to_hex n in replicate (32 - length ds) 0x30 @ ds)"

definition uuid_hex :: "128 word \<Rightarrow> pystr" where
  "uuid_hex u = format_032x (unat u)"

definition is_lower_hex :: "codepoint \<Rightarrow> bool" where
  "is_lower_hex c \<longleftrightarrow> (0x30 \<le> c \<and> c \<le> 0x39) \<or> (0x61 \<le> c \<and> c \<le> 0x66)"

section \<open>The chat-completions handler\<close>

text \<open>
  Exceptions are values. The tokenizer, the model and the hub client are libraries
  outside the repository; what they raise is a \<open>LibraryError\<close>.
\<close>

datatype py_exception = FileExistsError | NotADirectoryError | FileNotFoundError
  | LibraryError pystr

text \<open>
  The request body, for the payloads the API describes: a JSON object whose fields, when
  present, are a list of messages, an integer and two floats, so that \<open>int(...)\<close> and
  \<open>float(...)\<close> return the value they are given. \<open>None\<close> is an absent key.
\<close>

record payload =
  messages :: "msg list option"
  max_tokens :: "int option"
  temperature :: "pyfloat option"
  top_p :: "pyfloat option"

text \<open>
  The model runtime that \<open>create_app\<close> loads and the handler closes over. The tokenizer
  call returns the batch encoding of one prompt (\<open>inputs["input_ids"][0]\<close> is
  \<open>input_ids\<close>), \<open>model_generate\<close> returns the first row \<open>output[0]\<close> of the generated
  batch, and both may raise. \<open>generate_kwargs\<close> are the keyword arguments of the call
  \<open>model.generate(**inputs, pad_token_id=..., do_sample=..., temperature=..., top_p=...,
  max_new_tokens=...)\<close>.
\<close>

record encoding =
  input_ids :: "nat list"
  attention_mask :: "nat list"

record generate_kwargs =
  inputs :: encoding
  pad_token_id :: "nat option"
  do_sample :: bool
  gen_temperature :: pyfloat
  gen_top_p :: pyfloat
  max_new_tokens :: int

record runtime =
  model_repo :: pystr
  tokenizer_call :: "pystr \<Rightarrow> py_exception + encoding"
  eos_token_id :: "nat option"
  model_generate :: "generate_kwargs \<Rightarrow> py_exception + nat list"
  tokenizer_decode :: "nat list \<Rightarrow> pystr"

text \<open>What one request reads from its environment: the random UUID and the clock.\<close>

record request_env =
  uuid4_int :: "128 word"
  time_now :: real

record usage_block =
  prompt_tokens :: int
  completion_tokens :: int
  total_tokens :: int

record chat_message =
  role :: pystr
  content :: pystr

record choice =
  index :: int
  message :: chat_message
  finish_reason :: pystr

record response =
  response_id :: pystr
  object :: pystr
  created :: int
  model :: pystr
  choices :: "choice list"
  usage :: usage_block

text \<open>The first four statements of \<open>chat_completions\<close>: the fields with their defaults.\<close>

definition request_messages :: "payload \<Rightarrow> msg list" where
  "request_messages p = (case messages p of None \<Rightarrow> [] | Some ms \<Rightarrow> ms)"

definition request_max_tokens :: "payload \<Rightarrow> int" where
  "request_max_tokens p = max 16 (case max_tokens p of None \<Rightarrow> 128 | Some n \<Rightarrow> n)"

definition request_temperature :: "payload \<Rightarrow> pyfloat" where
  "request_temperature p = (case temperature p of None \<Rightarrow> float_0_7 | Some t \<Rightarrow> t)"

definition request_top_p :: "payload \<Rightarrow> pyfloat" where
  "request_top_p p = (case top_p p of None \<Rightarrow> float_0_8 | Some t \<Rightarrow> t)"

text \<open>The keyword arguments with which the handler calls \<open>model.generate\<close>.\<close>

definition generate_call :: "runtime \<Rightarrow> payload \<Rightarrow> encoding \<Rightarrow> generate_kwargs" where
  "generate_call rt p enc =
     \<lparr> inputs = enc,
       pad_token_id = eos_token_id rt,
       do_sample = float_gt_int (request_temperature p) 0,
       gen_temperature = request_temperature p,
       gen_top_p = request_top_p p,
       max_new_tokens = request_max_tokens p \<rparr>"

text \<open>The statements after generation: decoding, extraction, usage and the envelope.\<close>

definition completion_text :: "pystr \<Rightarrow> pystr \<Rightarrow> pystr" where
  "completion_text prompt decoded =
     py_or (py_strip (py_slice_from decoded (py_len prompt))) decoded"

definition usage_of :: "encoding \<Rightarrow> nat list \<Rightarrow> usage_block" where
  "usage_of enc output =
     \<lparr> prompt_tokens = py_len (input_ids enc),
       completion_tokens = max 0 (py_len output - py_len (input_ids enc)),
       total_tokens = py_len output \<rparr>"

definition assemble :: "runtime \<Rightarrow> request_env \<Rightarrow> pystr \<Rightarrow> encoding \<Rightarrow> nat list \<Rightarrow> response" where
  "assemble rt env prompt enc output =
     (let decoded = tokenizer_decode rt output;
          completion = completion_text prompt decoded;
          rid = lit ''chatcmpl-'' @ py_slice_to (uuid_hex (uuid4_int env)) 12;
          reason = lit ''stop''
      in \<lparr> response_id = rid,
           object = lit ''chat.completion'',
           created = int_of_time (time_now env),
           model = model_repo rt,
           choices = [\<lparr> index = 0,
                        message = \<lparr> role = lit ''assistant'', content = completion \<rparr>,
                        finish_reason = reason \<rparr>],
           usage = usage_of enc output \<rparr>)"

definition chat_completions :: "runtime \<Rightarrow> request_env \<Rightarrow> payload \<Rightarrow> py_exception + response" where
  "chat_completions rt env p =
     (let prompt = build_prompt (request_messages p)
      in case tokenizer_call rt prompt of
           Inl e \<Rightarrow> Inl e
         | Inr enc \<Rightarrow>
             (case model_generate rt (generate_call rt p enc) of
                Inl e \<Rightarrow> Inl e
              | Inr output \<Rightarrow> Inr (assemble rt env prompt enc output)))"

section \<open>ensure\_model\<close>

text \<open>
  The file system is a tree from the root directory: a node is a file or a directory with
  its entries under ordinary names (symbolic links and permissions are not modelled). A
  position is the list of entry names leading from the root to a node, as \<open>os.getcwd()\<close>
  gives it for the working directory.
\<close>

datatype node = File | Dir "(pystr \<times> node) list"

type_synonym position = "pystr list"

fun node_at :: "position \<Rightarrow> node \<Rightarrow> node option" where
  "node_at [] t = Some t"
| "node_at (n # ns) File = None"
| "node_at (n # ns) (Dir entries) =
     (case map_of entries n of None \<Rightarrow> None | Some child \<Rightarrow> node_at ns child)"

text \<open>
  A \<open>pathlib.Path\<close> is relative or absolute and holds its components. The constructor
  drops empty and \<open>"."\<close> components but keeps \<open>".."\<close>, which the operating system
  resolves when the path is used. \<open>str(path)\<close> joins the components with \<open>"/"\<close>.
\<close>

datatype pypath = Relative "pystr list" | Absolute "pystr list"

fun parts :: "pypath \<Rightarrow> pystr list" where
  "parts (Relative ps) = ps"
| "parts (Absolute ps) = ps"

fun path_str :: "pypath \<Rightarrow> pystr" where
  "path_str (Relative ps) = (if ps = [] then lit ''.'' else py_join (lit ''/'') ps)"
| "path_str (Absolute ps) = lit ''/'' @ py_join (lit ''/'') ps"

text \<open>
  How the operating system walks the components of a path from a position: every
  component is taken in a directory, \<open>".."\<close> leads to the parent directory (the root is
  its own parent) and a name leads to the entry of that name. A missing entry is
  \<open>FileNotFoundError\<close>, a file in the way is \<open>NotADirectoryError\<close>.
\<close>

fun resolve :: "node \<Rightarrow> position \<Rightarrow> pystr list \<Rightarrow> py_exception + position" where
  "resolve tree pos [] = Inr pos"
| "resolve tree pos (c # cs) =
     (case node_at pos tree of
        None \<Rightarrow> Inl FileNotFoundError
      | Some File \<Rightarrow> Inl NotADirectoryError
      | Some (Dir entries) \<Rightarrow>
          if c = lit ''..'' then resolve tree (butlast pos) cs
          else (case map_of entries c of
                  None \<Rightarrow> Inl FileNotFoundError
                | Some child \<Rightarrow> resolve tree (pos @ [c]) cs))"

text \<open>The tree with a new empty directory \<open>name\<close> in the directory at a position.\<close>

fun add_dir :: "position \<Rightarrow> pystr \<Rightarrow> node \<Rightarrow> node" where
  "add_dir ns name File = File"
| "add_dir [] name (Dir entries) = Dir (entries @ [(name, Dir [])])"
| "add_dir (n # ns) name (Dir entries) =
     (case map_of entries n of
        None \<Rightarrow> Dir entries
      | Some child \<Rightarrow> Dir (AList.update n (add_dir ns name child) entries))"

text \<open>
  \<open>os.mkdir(path)\<close>: the path without its last component must lead to a directory, in
  which the last component is created unless it names something there already.
\<close>

definition os_mkdir :: "node \<Rightarrow> position \<Rightarrow> pystr list \<Rightarrow> py_exception + node" where
  "os_mkdir tree start ps =
     (if ps = [] then
        (case node_at start tree of
           None \<Rightarrow> Inl FileNotFoundError
         | Some n \<Rightarrow> Inl FileExistsError)
      else
        (case resolve tree start (butlast ps) of
           Inl e \<Rightarrow> Inl e
         | Inr pos \<Rightarrow>
             (case node_at pos tree of
                None \<Rightarrow> Inl FileNotFoundError
              | Some File \<Rightarrow> Inl NotADirectoryError
              | Some (Dir entries) \<Rightarrow>
                  if last ps = lit ''..'' then Inl FileExistsError
                  else (case map_of entries (last ps) of
                          Some child \<Rightarrow> Inl FileExistsError
                        | None \<Rightarrow> Inr (add_dir pos (last ps) tree)))))"

text \<open>\<open>path.is_dir()\<close>: the path leads to a directory; any failure on the way is \<open>False\<close>.\<close>

definition is_dir :: "node \<Rightarrow> position \<Rightarrow> pystr list \<Rightarrow> bool" where
  "is_dir tree start ps =
     (case resolve tree start ps of
        Inl e \<Rightarrow> False
      | Inr pos \<Rightarrow> (case node_at pos tree of Some (Dir entries) \<Rightarrow> True | _ \<Rightarrow> False))"

text \<open>
  \<open>Path.mkdir(parents=..., exist_ok=True)\<close>, as pathlib defines it: it calls \<open>os.mkdir\<close>;
  on \<open>FileNotFoundError\<close>, with \<open>parents\<close> and unless the path is its own parent, it
  makes the parent path with \<open>parents=True\<close> and then the path itself with
  \<open>parents=False\<close>; any other \<open>OSError\<close> is swallowed when the path is a directory.
\<close>

function path_mkdir :: "bool \<Rightarrow> node \<Rightarrow> position \<Rightarrow> pystr list \<Rightarrow> py_exception + node" where
  "path_mkdir parents tree start ps =
     (case os_mkdir tree start ps of
        Inr tree' \<Rightarrow> Inr tree'
      | Inl e \<Rightarrow>
          if e = FileNotFoundError then
            (if \<not> parents \<or> ps = [] then Inl e
             else (case path_mkdir True tree start (butlast ps) of
                     Inl e' \<Rightarrow> Inl e'
                   | Inr tree1 \<Rightarrow> path_mkdir False tree1 start ps))
          else if is_dir tree start ps then Inr tree
          else Inl e)"
  by pat_completeness auto
termination
  by (relation "measure (\<lambda>(parents, tree, start, ps). 2 * length ps + (if parents then 1 else 0))")
     auto

declare path_mkdir.simps [simp del]

text \<open>
  \<open>path.iterdir()\<close> lists the entries of the directory the path leads to; \<open>any(...)\<close> over
  \<open>Path\<close> objects, which are all truthy, is true when there is at least one entry.
\<close>

definition iterdir :: "node \<Rightarrow> position \<Rightarrow> pystr list \<Rightarrow> py_exception + pystr list" where
  "iterdir tree start ps =
     (case resolve tree start ps of
        Inl e \<Rightarrow> Inl e
      | Inr pos \<Rightarrow>
          (case node_at pos tree of
             None \<Rightarrow> Inl FileNotFoundError
           | Some File \<Rightarrow> Inl NotADirectoryError
           | Some (Dir entries) \<Rightarrow> Inr (map fst entries)))"

definition py_any :: "'a list \<Rightarrow> bool" where
  "py_any xs \<longleftrightarrow> xs \<noteq> []"

text \<open>
  What \<open>ensure_model\<close> reads and changes: the file system, the working directory, the
  environment variable \<open>HF_TOKEN\<close>, the lines printed, and the calls made to
  \<open>snapshot_download\<close>. A relative path starts at the working directory, an absolute one
  at the root. The hub client is a library outside the repository: it is a parameter
  that, given \<open>repo_id\<close>, \<open>local_dir\<close>, the token, the working directory and the file
  system, returns the file system after the download or raises. An exception ends the
  start of the process, so no state is returned with it.
\<close>

record world =
  fs :: node
  cwd :: position
  hf_token_env :: "pystr option"
  stdout :: "pystr list"
  fetches :: "(pystr \<times> pystr) list"

fun path_start :: "world \<Rightarrow> pypath \<Rightarrow> position" where
  "path_start w (Relative ps) = cwd w"
| "path_start w (Absolute ps) = []"

type_synonym hub =
  "pystr \<Rightarrow> pystr \<Rightarrow> pystr option \<Rightarrow> position \<Rightarrow> node \<Rightarrow> py_exception + node"

definition ensure_model :: "hub \<Rightarrow> pystr \<Rightarrow> pypath \<Rightarrow> world \<Rightarrow> py_exception + (pypath \<times> world)" where
  "ensure_model snapshot_download repo target_dir w =
     (case path_mkdir True (fs w) (path_start w target_dir) (parts target_dir) of
        Inl e \<Rightarrow> Inl e
      | Inr fs1 \<Rightarrow>
          (case iterdir fs1 (path_start w target_dir) (parts target_dir) of
             Inl e \<Rightarrow> Inl e
           | Inr entries \<Rightarrow>
               if py_any entries then Inr (target_dir, w\<lparr>fs := fs1\<rparr>)
               else
                 (let hf_token = hf_token_env w;
                      line = lit ''Downloading '' @ repo @ lit '' to '' @ path_str target_dir
                             @ lit ''...'';
                      w1 = w\<lparr>fs := fs1, stdout := stdout w @ [line],
                              fetches := fetches w @ [(repo, path_str target_dir)]\<rparr>
                  in case snapshot_download repo (path_str target_dir) hf_token (cwd w) fs1 of
                       Inl e \<Rightarrow> Inl e
                     | Inr fs2 \<Rightarrow> Inr (target_dir, w1\<lparr>fs := fs2\<rparr>))))"

text \<open>The target directory exists and is non-empty: \<open>any(target_dir.iterdir())\<close> holds.\<close>

definition populated :: "world \<Rightarrow> pypath \<Rightarrow> bool" where
  "populated w p =
     (case resolve (fs w) (path_start w p) (parts p) of
        Inl e \<Rightarrow> False
      | Inr pos \<Rightarrow>
          (case node_at pos (fs w) of Some (Dir entries) \<Rightarrow> entries \<noteq> [] | _ \<Rightarrow> False))"

section \<open>A sample runtime, request and file system\<close>

text \<open>
  Concrete values on which the theorems below are instantiated: a runtime whose token ids
  are the code points of the prompt and whose model appends \<open>" Hello "\<close>, one request,
  and a hub that delivers one file into \<open>models/m\<close>.
\<close>

definition echo_runtime :: runtime where
  "echo_runtime =
     \<lparr> model_repo = lit ''sshleifer/tiny-gpt2'',
       tokenizer_call = (\<lambda>s. Inr \<lparr> input_ids = s, attention_mask = map (\<lambda>_. 1) s \<rparr>),
       eos_token_id = Some 0,
       model_generate = (\<lambda>k. Inr (input_ids (inputs k) @ lit '' Hello '')),
       tokenizer_decode = (\<lambda>ts. ts) \<rparr>"

definition sample_env :: request_env where
  "sample_env = \<lparr> uuid4_int = 0x0123456789ABCDEF0123456789ABCDEF, time_now = 1700000000 \<rparr>"

definition sample_payload :: payload where
  "sample_payload =
     \<lparr> messages = Some [[lit ''role'' \<mapsto> lit ''user'', lit ''content'' \<mapsto> lit ''Hi'']],
       max_tokens = Some 1,
       temperature = Some (Finite 0),
       top_p = Some (Finite (9 / 10)) \<rparr>"

definition sample_prompt :: pystr where
  "sample_prompt = lit ''user: Hi'' @ [0x0A] @ lit ''assistant:''"

definition sample_encoding :: encoding where
  "sample_encoding = \<lparr> input_ids = sample_prompt, attention_mask = map (\<lambda>_. 1) sample_prompt \<rparr>"

definition sample_output :: "nat list" where
  "sample_output = sample_prompt @ lit '' Hello ''"

definition sample_dir :: pypath where
  "sample_dir = Relative [lit ''models'', lit ''m'']"

definition sample_hub :: hub where
  "sample_hub = (\<lambda>repo local_dir token wd tree.
     Inr (Dir [(lit ''models'', Dir [(lit ''m'', Dir [(lit ''config.json'', File)])])]))"

definition empty_world :: world where
  "empty_world = \<lparr> fs = Dir [], cwd = [], hf_token_env = None, stdout = [], fetches = [] \<rparr>"

definition sample_world :: world where
  "sample_world =
     \<lparr> fs = Dir [(lit ''models'', Dir [(lit ''m'', Dir [(lit ''config.json'', File)])])],
       cwd = [],
       hf_token_env = None,
       stdout = [lit ''Downloading r to models/m...''],
       fetches = [(lit ''r'', lit ''models/m'')] \<rparr>"

text \<open>
  A working directory \<open>/srv\<close> that holds an empty directory \<open>a\<close> and a directory \<open>b\<close> with
  one file, and the path \<open>a/../b\<close>, which leads to \<open>b\<close>.
\<close>

definition sibling_world :: world where
  "sibling_world =
     \<lparr> fs = Dir [(lit ''srv'', Dir [(lit ''a'', Dir []),
                                    (lit ''b'', Dir [(lit ''config.json'', File)])])],
       cwd = [lit ''srv''],
       hf_token_env = None,
       stdout = [],
       fetches = [] \<rparr>"

definition sibling_dir :: pypath where
  "sibling_dir = Relative [lit ''a'', lit ''..'', lit ''b'']"

text \<open>A working directory \<open>/srv\<close> that holds an empty directory \<open>a\<close> and a file \<open>f\<close>.\<close>

definition probe_tree :: node where
  "probe_tree = Dir [(lit ''srv'', Dir [(lit ''a'', Dir []), (lit ''f'', File)])]"

section \<open>Properties of the string operations\<close>

text \<open>What \<open>py_strip\<close> leaves neither starts nor ends with whitespace.\<close>

lemma py_strip_ends:
  assumes "py_strip s \<noteq> []"
  shows "\<not> py_isspace (hd (py_strip s)) \<and> \<not> py_isspace (last (py_strip s))"
proof -
  define t where "t = dropWhile py_isspace s"
  define u where "u = dropWhile py_isspace (rev t)"
  have su: "py_strip s = rev u"
    by (simp add: py_strip_def t_def u_def)
  with assms have une: "u \<noteq> []"
    by simp
  then have l: "\<not> py_isspace (hd u)"
    unfolding u_def by (rule hd_dropWhile)
  have "rev t = takeWhile py_isspace (rev t) @ u"
    by (simp add: u_def)
  then have "t = rev u @ rev (takeWhile py_isspace (rev t))"
    by (metis rev_append rev_rev_ident)
  with une have "hd t = hd (rev u)"
    by (metis hd_append2 rev_is_Nil_conv)
  moreover have "t \<noteq> []"
    using une u_def by auto
  then have "\<not> py_isspace (hd t)"
    unfolding t_def by (rule hd_dropWhile)
  ultimately show ?thesis
    using l une by (simp add: su last_rev)
qed

text \<open>The operations on small inputs, with the values the interpreter gives.\<close>

lemma string_operation_values:
  "py_strip (lit ''  a b '' @ [0x0A]) = lit ''a b''"
  "py_strip [0x20, 0xA0, 0x3000] = []"
  "py_slice_from (lit ''abc'') 5 = []"
  "py_slice_from (lit ''abc'') (- 1) = lit ''c''"
  "py_slice_from (lit ''abc'') (- 7) = lit ''abc''"
  "py_slice_to (lit ''abcdef'') 2 = lit ''ab''"
  "py_join (lit '', '') [lit ''a'', lit ''b'', lit ''c''] = lit ''a, b, c''"
  "format_032x 255 = replicate 30 0x30 @ lit ''ff''"
  by (simp_all add: py_strip_def py_isspace_def py_slice_from_def py_slice_to_def
      slice_index_def py_len_def format_032x_def to_hex.simps hex_digit_def lit_def)

section \<open>Properties of build\_prompt\<close>

lemma build_transcript_acc:
  "build_transcript ms acc = acc @ map message_line ms"
  by (induction ms arbitrary: acc) (simp_all add: message_line_def lit_def)

lemma py_join_snoc:
  "py_join sep (xs @ [l]) = concat (map (\<lambda>x. x @ sep) xs) @ l"
proof (induction xs)
  case Nil
  show ?case by simp
next
  case (Cons x xs)
  then show ?case by (cases xs) simp_all
qed

lemma build_prompt_concat:
  "build_prompt ms =
     concat (map (\<lambda>m. message_line m @ lit [CHR 0x0A]) ms) @ lit ''assistant:''"
  by (simp add: build_prompt_def build_transcript_acc py_join_snoc comp_def)

text \<open>
  C3. For every message sequence, \<open>build_prompt\<close> is the lines \<open>"{role}: {content}"\<close> of
  the messages in their order, each followed by a newline, and then the line
  \<open>"assistant:"\<close>, after which nothing follows (the last ten characters of the result
  are \<open>"assistant:"\<close>, so there is no trailing newline); the empty sequence gives exactly
  \<open>"assistant:"\<close>.
\<close>

theorem build_prompt_lines:
  "build_prompt ms =
     concat (map (\<lambda>m. message_line m @ lit [CHR 0x0A]) ms) @ lit ''assistant:''
   \<and> build_prompt ms = py_join (lit [CHR 0x0A]) (map message_line ms @ [lit ''assistant:''])
   \<and> drop (length (build_prompt ms) - 10) (build_prompt ms) = lit ''assistant:''
   \<and> build_prompt [] = lit ''assistant:''"
proof -
  have a: "build_prompt ms =
      concat (map (\<lambda>m. message_line m @ lit [CHR 0x0A]) ms) @ lit ''assistant:''"
    by (rule build_prompt_concat)
  have b: "build_prompt ms =
      py_join (lit [CHR 0x0A]) (map message_line ms @ [lit ''assistant:''])"
    by (simp add: build_prompt_def build_transcript_acc)
  have len: "length (lit ''assistant:'') = 10"
    by (simp add: lit_def)
  have c: "drop (length (build_prompt ms) - 10) (build_prompt ms) = lit ''assistant:''"
    by (simp add: a len)
  have d: "build_prompt [] = lit ''assistant:''"
    by (simp add: build_prompt_def)
  from a b c d show ?thesis by blast
qed

text \<open>
  C7. \<open>build_prompt\<close> has a result on every sequence of message records, whatever
  fields they lack: a message at any position is rendered with the role \<open>"user"\<close> when
  it has no \<open>role\<close> and with the empty content when it has no \<open>content\<close>.
\<close>

theorem build_prompt_absent_fields:
  "build_prompt (before @ [m] @ after) =
     concat (map (\<lambda>x. message_line x @ lit [CHR 0x0A]) before)
     @ (case m (lit ''role'') of None \<Rightarrow> lit ''user'' | Some r \<Rightarrow> r)
     @ lit '': ''
     @ (case m (lit ''content'') of None \<Rightarrow> [] | Some c \<Rightarrow> c)
     @ lit [CHR 0x0A]
     @ build_prompt after"
  by (simp add: build_prompt_concat message_line_def dict_get_def)

section \<open>Properties of the handler\<close>

lemma chat_completions_Inr:
  assumes "chat_completions rt env p = Inr resp"
  obtains enc out where
    "tokenizer_call rt (build_prompt (request_messages p)) = Inr enc"
    "model_generate rt (generate_call rt p enc) = Inr out"
    "resp = assemble rt env (build_prompt (request_messages p)) enc out"
  using assms by (auto simp: chat_completions_def Let_def split: sum.splits)

lemma chat_completions_assemble:
  assumes "chat_completions rt env p = Inr resp"
    and "tokenizer_call rt (build_prompt (request_messages p)) = Inr enc"
    and "model_generate rt (generate_call rt p enc) = Inr out"
  shows "resp = assemble rt env (build_prompt (request_messages p)) enc out"
  using assms by (simp add: chat_completions_def Let_def)

lemma slice_from_len: "py_slice_from s (py_len t) = drop (length t) s"
  by (cases "length t \<le> length s")
     (simp_all add: py_slice_from_def slice_index_def py_len_def min_def)

lemma slice_to_nonneg: "0 \<le> j \<Longrightarrow> py_slice_to s j = take (nat j) s"
  by (simp add: py_slice_to_def slice_index_def py_len_def min_def)

lemma completion_text_eq:
  "completion_text prompt decoded =
     (if py_strip (drop (length prompt) decoded) = [] then decoded
      else py_strip (drop (length prompt) decoded))"
  by (simp add: completion_text_def py_or_def slice_from_len)

lemma py_strip_of_Nil: "py_strip [] = []"
  by (simp add: py_strip_def)

lemma sample_prompt_eq: "build_prompt (request_messages sample_payload) = sample_prompt"
  by (simp add: build_prompt_def request_messages_def sample_payload_def sample_prompt_def
      dict_get_def lit_def)

lemma sample_tokenized:
  "tokenizer_call echo_runtime (build_prompt (request_messages sample_payload)) = Inr sample_encoding"
  by (simp add: sample_prompt_eq echo_runtime_def sample_encoding_def)

lemma sample_generated:
  "model_generate echo_runtime (generate_call echo_runtime sample_payload sample_encoding) = Inr sample_output"
  by (simp add: echo_runtime_def generate_call_def sample_encoding_def sample_output_def)

lemma sample_response:
  "chat_completions echo_runtime sample_env sample_payload =
     Inr (assemble echo_runtime sample_env sample_prompt sample_encoding sample_output)"
  using sample_tokenized sample_generated
  by (simp add: chat_completions_def Let_def sample_prompt_eq)

text \<open>
  C1. In every response of the handler, \<open>prompt_tokens\<close> is the length of the tokenized
  prompt, \<open>total_tokens\<close> is the length of the sequence that generation returned, and
  \<open>completion_tokens\<close> is not negative; when the generated sequence is at least as long
  as the prompt's token sequence (generation returns the prompt tokens followed by the new
  ones), \<open>total_tokens = prompt_tokens + completion_tokens\<close>.
\<close>

theorem usage_accounting:
  assumes "chat_completions rt env p = Inr resp"
    and "tokenizer_call rt (build_prompt (request_messages p)) = Inr enc"
    and "model_generate rt (generate_call rt p enc) = Inr out"
  shows "prompt_tokens (usage resp) = int (length (input_ids enc))
       \<and> total_tokens (usage resp) = int (length out)
       \<and> 0 \<le> completion_tokens (usage resp)
       \<and> (length (input_ids enc) \<le> length out \<longrightarrow>
            total_tokens (usage resp) = prompt_tokens (usage resp) + completion_tokens (usage resp))"
proof -
  have "usage resp = usage_of enc out"
    using chat_completions_assemble [OF assms] by (simp add: assemble_def Let_def)
  then show ?thesis
    by (simp add: usage_of_def py_len_def)
qed

theorem usage_accounting_witness:
  "chat_completions echo_runtime sample_env sample_payload =
     Inr (assemble echo_runtime sample_env sample_prompt sample_encoding sample_output)
   \<and> length (input_ids sample_encoding) \<le> length sample_output
   \<and> usage (assemble echo_runtime sample_env sample_prompt sample_encoding sample_output) =
       \<lparr> prompt_tokens = 19, completion_tokens = 7, total_tokens = 26 \<rparr>"
proof -
  have len: "length (input_ids sample_encoding) \<le> length sample_output"
    by (simp add: sample_encoding_def sample_output_def)
  have p: "length (input_ids sample_encoding) = 19"
    by (simp add: sample_encoding_def sample_prompt_def lit_def)
  have t: "length sample_output = 26"
    by (simp add: sample_output_def sample_prompt_def lit_def)
  from usage_accounting [OF sample_response sample_tokenized sample_generated] len p t
  have "usage (assemble echo_runtime sample_env sample_prompt sample_encoding sample_output) =
       \<lparr> prompt_tokens = 19, completion_tokens = 7, total_tokens = 26 \<rparr>"
    by simp
  with sample_response len show ?thesis by simp
qed

lemma sample_decoded:
  "tokenizer_decode echo_runtime sample_output = sample_output"
  by (simp add: echo_runtime_def)

lemma sample_completion:
  "py_strip (drop (length sample_prompt) sample_output) = lit ''Hello''"
  by (simp add: sample_output_def py_strip_def py_isspace_def lit_def)

text \<open>
  C2. The content of the single choice is the decoded output without its first
  \<open>len(prompt)\<close> characters, stripped of whitespace at both ends; when that remainder is
  empty, the content is the whole decoded output.
\<close>

theorem completion_extraction:
  assumes "chat_completions rt env p = Inr resp"
    and "tokenizer_call rt (build_prompt (request_messages p)) = Inr enc"
    and "model_generate rt (generate_call rt p enc) = Inr out"
  shows "content (message (choices resp ! 0)) =
     (if py_strip (drop (length (build_prompt (request_messages p))) (tokenizer_decode rt out)) = []
      then tokenizer_decode rt out
      else py_strip (drop (length (build_prompt (request_messages p))) (tokenizer_decode rt out)))"
proof -
  have "content (message (choices resp ! 0)) =
      completion_text (build_prompt (request_messages p)) (tokenizer_decode rt out)"
    using chat_completions_assemble [OF assms] by (simp add: assemble_def Let_def)
  then show ?thesis
    by (simp only: completion_text_eq)
qed

theorem completion_extraction_witness:
  "chat_completions echo_runtime sample_env sample_payload =
     Inr (assemble echo_runtime sample_env sample_prompt sample_encoding sample_output)
   \<and> content (message (choices
         (assemble echo_runtime sample_env sample_prompt sample_encoding sample_output) ! 0)) =
       lit ''Hello''"
proof -
  have ne: "lit ''Hello'' \<noteq> []"
    by (simp add: lit_def)
  from completion_extraction [OF sample_response sample_tokenized sample_generated] ne
  have "content (message (choices
         (assemble echo_runtime sample_env sample_prompt sample_encoding sample_output) ! 0)) =
       lit ''Hello''"
    by (simp only: sample_prompt_eq sample_decoded sample_completion if_False)
  with sample_response show ?thesis by simp
qed

text \<open>
  C9. The content of the response is the empty string exactly when the decoded output is
  the empty string: whenever the decoded output is non-empty, so is the content.
\<close>

theorem completion_empty_iff:
  assumes "chat_completions rt env p = Inr resp"
    and "tokenizer_call rt (build_prompt (request_messages p)) = Inr enc"
    and "model_generate rt (generate_call rt p enc) = Inr out"
  shows "content (message (choices resp ! 0)) = [] \<longleftrightarrow> tokenizer_decode rt out = []"
proof -
  have "content (message (choices resp ! 0)) =
      completion_text (build_prompt (request_messages p)) (tokenizer_decode rt out)"
    using chat_completions_assemble [OF assms] by (simp add: assemble_def Let_def)
  then show ?thesis
    by (auto simp: completion_text_eq py_strip_of_Nil)
qed

theorem completion_empty_iff_witness:
  "chat_completions echo_runtime sample_env sample_payload =
     Inr (assemble echo_runtime sample_env sample_prompt sample_encoding sample_output)
   \<and> tokenizer_decode echo_runtime sample_output \<noteq> []
   \<and> content (message (choices
         (assemble echo_runtime sample_env sample_prompt sample_encoding sample_output) ! 0)) \<noteq> []"
proof -
  have ne: "tokenizer_decode echo_runtime sample_output \<noteq> []"
    by (simp add: echo_runtime_def sample_output_def lit_def)
  from completion_empty_iff [OF sample_response sample_tokenized sample_generated] ne
  have "content (message (choices
         (assemble echo_runtime sample_env sample_prompt sample_encoding sample_output) ! 0)) \<noteq> []"
    by simp
  with sample_response ne show ?thesis by simp
qed

text \<open>
  C8. Every response has exactly one choice, with index 0, \<open>finish_reason\<close> \<open>"stop"\<close> and
  the message role \<open>"assistant"\<close>, whatever the runtime generated.
\<close>

theorem single_choice_stop:
  assumes "chat_completions rt env p = Inr resp"
  shows "length (choices resp) = 1
       \<and> index (choices resp ! 0) = 0
       \<and> finish_reason (choices resp ! 0) = lit ''stop''
       \<and> role (message (choices resp ! 0)) = lit ''assistant''"
  using assms by (rule chat_completions_Inr) (simp add: assemble_def Let_def)

theorem single_choice_stop_witness:
  "chat_completions echo_runtime sample_env sample_payload =
     Inr (assemble echo_runtime sample_env sample_prompt sample_encoding sample_output)
   \<and> length (choices
         (assemble echo_runtime sample_env sample_prompt sample_encoding sample_output)) = 1
   \<and> finish_reason (choices
         (assemble echo_runtime sample_env sample_prompt sample_encoding sample_output) ! 0) =
       lit ''stop''
   \<and> role (message (choices
         (assemble echo_runtime sample_env sample_prompt sample_encoding sample_output) ! 0)) =
       lit ''assistant''"
  using single_choice_stop [OF sample_response] sample_response by simp

lemma chat_completions_same_call:
  assumes "request_messages p = request_messages q"
    and "\<And>enc. generate_call rt p enc = generate_call rt q enc"
  shows "chat_completions rt env p = chat_completions rt env q"
  using assms by (simp add: chat_completions_def Let_def split: sum.split)

text \<open>
  C4. The \<open>max_new_tokens\<close> passed to generation is the maximum of 16 and the requested
  \<open>max_tokens\<close>, where an absent field counts as 128; a request for 1 token is handled
  exactly as a request for 16. An absent \<open>temperature\<close> is \<open>0.7\<close>, an absent \<open>top_p\<close> is
  \<open>0.8\<close>, and absent \<open>messages\<close> are the empty list.
\<close>

theorem request_defaults:
  "max_new_tokens (generate_call rt p enc) =
      max 16 (case max_tokens p of None \<Rightarrow> 128 | Some n \<Rightarrow> n)
   \<and> max_new_tokens (generate_call rt (p\<lparr>max_tokens := None\<rparr>) enc) = 128
   \<and> max_new_tokens (generate_call rt (p\<lparr>max_tokens := Some 1\<rparr>) enc) = 16
   \<and> chat_completions rt env (p\<lparr>max_tokens := Some 1\<rparr>) =
      chat_completions rt env (p\<lparr>max_tokens := Some 16\<rparr>)
   \<and> chat_completions rt env (p\<lparr>max_tokens := None\<rparr>) =
      chat_completions rt env (p\<lparr>max_tokens := Some 128\<rparr>)
   \<and> gen_temperature (generate_call rt (p\<lparr>temperature := None\<rparr>) enc) = float_0_7
   \<and> gen_top_p (generate_call rt (p\<lparr>top_p := None\<rparr>) enc) = float_0_8
   \<and> chat_completions rt env (p\<lparr>temperature := None\<rparr>) =
      chat_completions rt env (p\<lparr>temperature := Some float_0_7\<rparr>)
   \<and> chat_completions rt env (p\<lparr>top_p := None\<rparr>) =
      chat_completions rt env (p\<lparr>top_p := Some float_0_8\<rparr>)
   \<and> chat_completions rt env (p\<lparr>messages := None\<rparr>) =
      chat_completions rt env (p\<lparr>messages := Some []\<rparr>)"
proof -
  note defs = generate_call_def request_max_tokens_def request_temperature_def
    request_top_p_def request_messages_def
  have a: "max_new_tokens (generate_call rt p enc) =
      max 16 (case max_tokens p of None \<Rightarrow> 128 | Some n \<Rightarrow> n)"
    by (simp add: defs)
  have b: "max_new_tokens (generate_call rt (p\<lparr>max_tokens := None\<rparr>) enc) = 128"
    by (simp add: defs)
  have c: "max_new_tokens (generate_call rt (p\<lparr>max_tokens := Some 1\<rparr>) enc) = 16"
    by (simp add: defs)
  have d: "chat_completions rt env (p\<lparr>max_tokens := Some 1\<rparr>) =
      chat_completions rt env (p\<lparr>max_tokens := Some 16\<rparr>)"
    by (rule chat_completions_same_call) (simp_all add: defs)
  have e: "chat_completions rt env (p\<lparr>max_tokens := None\<rparr>) =
      chat_completions rt env (p\<lparr>max_tokens := Some 128\<rparr>)"
    by (rule chat_completions_same_call) (simp_all add: defs)
  have f: "gen_temperature (generate_call rt (p\<lparr>temperature := None\<rparr>) enc) = float_0_7"
    by (simp add: defs)
  have g: "gen_top_p (generate_call rt (p\<lparr>top_p := None\<rparr>) enc) = float_0_8"
    by (simp add: defs)
  have h: "chat_completions rt env (p\<lparr>temperature := None\<rparr>) =
      chat_completions rt env (p\<lparr>temperature := Some float_0_7\<rparr>)"
    by (rule chat_completions_same_call) (simp_all add: defs)
  have i: "chat_completions rt env (p\<lparr>top_p := None\<rparr>) =
      chat_completions rt env (p\<lparr>top_p := Some float_0_8\<rparr>)"
    by (rule chat_completions_same_call) (simp_all add: defs)
  have j: "chat_completions rt env (p\<lparr>messages := None\<rparr>) =
      chat_completions rt env (p\<lparr>messages := Some []\<rparr>)"
    by (rule chat_completions_same_call) (simp_all add: defs)
  from a b c d e f g h i j show ?thesis by blast
qed

text \<open>
  C5. The \<open>do_sample\<close> flag passed to generation is true exactly when the temperature
  passed in the same call is greater than 0: a temperature of 0 turns sampling off, and
  the default temperature turns it on.
\<close>

theorem sampling_flag:
  "do_sample (generate_call rt p enc) =
     (case gen_temperature (generate_call rt p enc) of
        Finite r \<Rightarrow> 0 < r | PosInf \<Rightarrow> True | NegInf \<Rightarrow> False | NaN \<Rightarrow> False)
   \<and> \<not> do_sample (generate_call rt (p\<lparr>temperature := Some (Finite 0)\<rparr>) enc)
   \<and> do_sample (generate_call rt (p\<lparr>temperature := None\<rparr>) enc)"
  by (simp add: generate_call_def request_temperature_def float_0_7_def split: pyfloat.split)

section \<open>The response identifier\<close>

lemma hex_digit_lower: "d < 16 \<Longrightarrow> is_lower_hex (hex_digit d)"
  by (auto simp: hex_digit_def is_lower_hex_def)

lemma to_hex_lower: "list_all is_lower_hex (to_hex n)"
proof (induction n rule: to_hex.induct)
  case (1 n)
  show ?case
  proof (cases "n < 16")
    case True
    then show ?thesis
      by (subst to_hex.simps) (simp add: hex_digit_lower)
  next
    case False
    with "1" show ?thesis
      by (subst to_hex.simps) (simp add: hex_digit_lower)
  qed
qed

lemma to_hex_length: "0 < k \<Longrightarrow> n < 16 ^ k \<Longrightarrow> length (to_hex n) \<le> k"
proof (induction n arbitrary: k rule: to_hex.induct)
  case (1 n)
  show ?case
  proof (cases "n < 16")
    case True
    with "1.prems" show ?thesis
      by (subst to_hex.simps) simp
  next
    case False
    obtain j where k: "k = Suc j"
      using "1.prems"(1) by (cases k) auto
    have "0 < j"
      using False "1.prems"(2) k by (cases j) auto
    moreover have "n div 16 < 16 ^ j"
      using "1.prems"(2) k by (simp add: less_mult_imp_div_less mult.commute)
    ultimately have "length (to_hex (n div 16)) \<le> j"
      using "1.IH" False by blast
    with False k show ?thesis
      by (subst to_hex.simps) simp
  qed
qed

lemma zero_digit_lower: "is_lower_hex 0x30"
  by (simp add: is_lower_hex_def)

lemma format_032x_lower: "list_all is_lower_hex (format_032x n)"
  using to_hex_lower [of n] zero_digit_lower
  by (auto simp: format_032x_def Let_def list_all_iff)

lemma format_032x_length: "n < 16 ^ 32 \<Longrightarrow> length (format_032x n) = 32"
  using to_hex_length [of 32 n] by (simp add: format_032x_def Let_def)

lemma pow_eq: "(16::nat) ^ 32 = 2 ^ 128"
  by simp

lemma uuid_hex_length: "length (uuid_hex u) = 32"
proof -
  have "unat u < 2 ^ LENGTH(128)"
    by (rule unsigned_less)
  then have "unat u < 2 ^ 128"
    by simp
  then have "unat u < 16 ^ 32"
    by (simp only: pow_eq)
  then show ?thesis
    unfolding uuid_hex_def by (rule format_032x_length)
qed

lemma take_12_uuid_hex:
  "length (take 12 (uuid_hex u)) = 12 \<and> list_all is_lower_hex (take 12 (uuid_hex u))"
proof -
  have "list_all is_lower_hex (uuid_hex u)"
    by (simp add: uuid_hex_def format_032x_lower)
  then have "list_all is_lower_hex (take 12 (uuid_hex u))"
    by (auto simp: list_all_iff dest: in_set_takeD)
  then show ?thesis
    by (simp add: uuid_hex_length)
qed

lemma chatcmpl_length: "length (lit ''chatcmpl-'') = 9"
  by (simp add: lit_def)

text \<open>
  C10. The identifier of every response is \<open>"chatcmpl-"\<close> followed by the first 12
  characters of the UUID's hexadecimal form: 21 characters, of which the first nine are
  \<open>"chatcmpl-"\<close> and the last twelve are lowercase hexadecimal digits.
\<close>

theorem response_id_shape:
  assumes "chat_completions rt env p = Inr resp"
  shows "response_id resp = lit ''chatcmpl-'' @ take 12 (uuid_hex (uuid4_int env))
       \<and> length (response_id resp) = 21
       \<and> take 9 (response_id resp) = lit ''chatcmpl-''
       \<and> length (drop 9 (response_id resp)) = 12
       \<and> list_all is_lower_hex (drop 9 (response_id resp))"
proof -
  have rid: "response_id resp = lit ''chatcmpl-'' @ take 12 (uuid_hex (uuid4_int env))"
    using assms by (rule chat_completions_Inr) (simp add: assemble_def Let_def slice_to_nonneg)
  show ?thesis
    unfolding rid using take_12_uuid_hex [of "uuid4_int env"]
    by (simp add: chatcmpl_length)
qed

lemma sample_uuid_hex: "take 12 (uuid_hex (uuid4_int sample_env)) = lit ''0123456789ab''"
  by (simp add: sample_env_def uuid_hex_def format_032x_def to_hex.simps hex_digit_def lit_def)

theorem response_id_shape_witness:
  "chat_completions echo_runtime sample_env sample_payload =
     Inr (assemble echo_runtime sample_env sample_prompt sample_encoding sample_output)
   \<and> response_id (assemble echo_runtime sample_env sample_prompt sample_encoding sample_output) =
       lit ''chatcmpl-'' @ lit ''0123456789ab''"
proof -
  have "response_id (assemble echo_runtime sample_env sample_prompt sample_encoding sample_output) =
       lit ''chatcmpl-'' @ take 12 (uuid_hex (uuid4_int sample_env))"
    using response_id_shape [OF sample_response] by (rule conjunct1)
  then have "response_id (assemble echo_runtime sample_env sample_prompt sample_encoding sample_output) =
       lit ''chatcmpl-'' @ lit ''0123456789ab''"
    by (simp only: sample_uuid_hex)
  with sample_response show ?thesis by (rule conjI)
qed

section \<open>Properties of ensure\_model\<close>

text \<open>
  The file system operations on small inputs, with the results the operating system and
  pathlib give from the working directory \<open>/srv\<close>.
\<close>

lemma file_system_values:
  "os_mkdir probe_tree [lit ''srv''] [lit ''q'', lit ''..''] = Inl FileNotFoundError"
  "os_mkdir probe_tree [lit ''srv''] [lit ''q'', lit ''..'', lit ''b''] = Inl FileNotFoundError"
  "os_mkdir probe_tree [lit ''srv''] [lit ''a'', lit ''..''] = Inl FileExistsError"
  "os_mkdir probe_tree [lit ''srv''] [] = Inl FileExistsError"
  "os_mkdir probe_tree [lit ''srv''] [lit ''..''] = Inl FileExistsError"
  "os_mkdir probe_tree [lit ''srv''] [lit ''f''] = Inl FileExistsError"
  "os_mkdir probe_tree [lit ''srv''] [lit ''f'', lit ''x''] = Inl NotADirectoryError"
  "os_mkdir probe_tree [lit ''srv''] [lit ''f'', lit ''..''] = Inl NotADirectoryError"
  "os_mkdir probe_tree [lit ''srv''] [lit ''f'', lit ''..'', lit ''x''] = Inl NotADirectoryError"
  "os_mkdir probe_tree [lit ''srv''] [lit ''f'', lit ''x'', lit ''y''] = Inl NotADirectoryError"
  "os_mkdir probe_tree [lit ''srv''] [lit ''q'', lit ''x'', lit ''y''] = Inl FileNotFoundError"
  "iterdir probe_tree [lit ''srv''] [lit ''f''] = Inl NotADirectoryError"
  "iterdir probe_tree [lit ''srv''] [lit ''q''] = Inl FileNotFoundError"
  "iterdir probe_tree [lit ''srv''] [lit ''a'', lit ''..''] = Inr [lit ''a'', lit ''f'']"
  "iterdir probe_tree [] [lit ''..'', lit ''..''] = Inr [lit ''srv'']"
  "path_mkdir True probe_tree [lit ''srv''] [lit ''n1'', lit ''..'', lit ''n2'', lit ''n3''] =
     Inr (Dir [(lit ''srv'', Dir [(lit ''a'', Dir []), (lit ''f'', File), (lit ''n1'', Dir []),
                                  (lit ''n2'', Dir [(lit ''n3'', Dir [])])])])"
  "path_mkdir True probe_tree [lit ''srv''] [lit ''f'', lit ''..'', lit ''z''] = Inl NotADirectoryError"
  "path_mkdir True probe_tree [lit ''srv''] [lit ''f''] = Inl FileExistsError"
  "path_mkdir True probe_tree [lit ''srv''] [lit ''f'', lit ''k''] = Inl NotADirectoryError"
  "path_mkdir True probe_tree [lit ''srv''] [lit ''a''] = Inr probe_tree"
  "path_mkdir False probe_tree [lit ''srv''] [lit ''q'', lit ''x''] = Inl FileNotFoundError"
  by (simp_all add: probe_tree_def os_mkdir_def iterdir_def is_dir_def path_mkdir.simps lit_def)

lemma resolve_append:
  "resolve tree pos (xs @ ys) =
     (case resolve tree pos xs of Inl e \<Rightarrow> Inl e | Inr q \<Rightarrow> resolve tree q ys)"
  by (induction xs arbitrary: pos) (auto split: option.splits node.splits)

lemma is_dir_os_mkdir:
  assumes "is_dir tree start ps"
  shows "os_mkdir tree start ps = Inl FileExistsError"
proof (cases "ps = []")
  case True
  with assms show ?thesis
    by (auto simp: is_dir_def os_mkdir_def split: option.splits)
next
  case False
  then have ps: "ps = butlast ps @ [last ps]"
    by simp
  from assms obtain pos where r: "resolve tree start ps = Inr pos"
    by (auto simp: is_dir_def split: sum.splits)
  then have "resolve tree start (butlast ps @ [last ps]) = Inr pos"
    using ps by simp
  then obtain q where q: "resolve tree start (butlast ps) = Inr q"
    and l: "resolve tree q [last ps] = Inr pos"
    by (auto simp: resolve_append split: sum.splits)
  from l show ?thesis
    using False q
    by (auto simp: os_mkdir_def split: option.splits node.splits if_splits)
qed

lemma path_mkdir_existing:
  assumes "is_dir tree start ps"
  shows "path_mkdir parents tree start ps = Inr tree"
  using assms is_dir_os_mkdir [OF assms]
  by (subst path_mkdir.simps) simp

lemma populated_is_dir:
  "populated w p \<Longrightarrow> is_dir (fs w) (path_start w p) (parts p)"
  by (auto simp: populated_def is_dir_def split: sum.splits option.splits node.splits)

lemma ensure_model_populated:
  assumes "populated w t"
  shows "ensure_model hub repo t w = Inr (t, w)"
proof -
  from assms obtain pos entries where
    r: "resolve (fs w) (path_start w t) (parts t) = Inr pos"
    and n: "node_at pos (fs w) = Some (Dir entries)" and ne: "entries \<noteq> []"
    by (auto simp: populated_def split: sum.splits option.splits node.splits)
  have "path_mkdir True (fs w) (path_start w t) (parts t) = Inr (fs w)"
    using populated_is_dir [OF assms] by (rule path_mkdir_existing)
  moreover have "iterdir (fs w) (path_start w t) (parts t) = Inr (map fst entries)"
    by (simp add: iterdir_def r n)
  ultimately show ?thesis
    using ne by (simp add: ensure_model_def py_any_def)
qed

lemma ensure_model_fetches:
  assumes "ensure_model hub repo t w = Inr (d, w')"
  shows "d = t \<and> cwd w' = cwd w \<and> length (fetches w') \<le> length (fetches w) + 1"
  using assms
  by (auto simp: ensure_model_def Let_def split: sum.splits if_splits)

lemma sample_first_call:
  "ensure_model sample_hub (lit ''r'') sample_dir empty_world = Inr (sample_dir, sample_world)"
  by (simp add: ensure_model_def iterdir_def py_any_def sample_hub_def
      sample_dir_def empty_world_def sample_world_def path_mkdir.simps os_mkdir_def is_dir_def
      lit_def)

lemma sample_world_populated: "populated sample_world sample_dir"
  by (simp add: populated_def sample_world_def sample_dir_def lit_def)

lemma sibling_world_populated: "populated sibling_world sibling_dir"
  by (simp add: populated_def sibling_world_def sibling_dir_def lit_def)

text \<open>
  C6. When the target directory exists and is non-empty, \<open>ensure_model\<close> returns that
  directory and changes nothing: no fetch, no output. When a call has returned and left
  the directory non-empty (it was so already, or the download filled it), it performed at
  most one fetch, and a second call with the same directory returns the same directory
  and changes nothing.
\<close>

theorem ensure_model_idempotent:
  "(populated w t \<longrightarrow> ensure_model hub repo t w = Inr (t, w))
   \<and> (ensure_model hub repo t w = Inr (d, w') \<and> populated w' t \<longrightarrow>
        d = t
        \<and> length (fetches w') \<le> length (fetches w) + 1
        \<and> ensure_model hub repo t w' = Inr (t, w')
        \<and> (populated w t \<longrightarrow> fetches w' = fetches w))"
proof (intro conjI impI)
  assume "populated w t"
  then show "ensure_model hub repo t w = Inr (t, w)"
    by (rule ensure_model_populated)
next
  assume a: "ensure_model hub repo t w = Inr (d, w') \<and> populated w' t"
  then show "d = t"
    using ensure_model_fetches by blast
  from a show "length (fetches w') \<le> length (fetches w) + 1"
    using ensure_model_fetches by blast
  from a show "ensure_model hub repo t w' = Inr (t, w')"
    using ensure_model_populated by blast
  assume "populated w t"
  then have "ensure_model hub repo t w = Inr (t, w)"
    by (rule ensure_model_populated)
  with a show "fetches w' = fetches w"
    by simp
qed

theorem ensure_model_idempotent_witness:
  "ensure_model sample_hub (lit ''r'') sample_dir empty_world = Inr (sample_dir, sample_world)
   \<and> populated sample_world sample_dir
   \<and> length (fetches sample_world) \<le> length (fetches empty_world) + 1
   \<and> ensure_model sample_hub (lit ''r'') sample_dir sample_world = Inr (sample_dir, sample_world)
   \<and> populated sibling_world sibling_dir
   \<and> ensure_model sample_hub (lit ''r'') sibling_dir sibling_world =
       Inr (sibling_dir, sibling_world)"
  using sample_first_call sample_world_populated sibling_world_populated
    ensure_model_idempotent [of empty_world sample_dir sample_hub "lit ''r''" sample_dir sample_world]
    ensure_model_idempotent [of sample_world sample_dir sample_hub "lit ''r''" sample_dir sample_world]
    ensure_model_idempotent [of sibling_world sibling_dir sample_hub "lit ''r''" sibling_dir sibling_world]
  by blast

end
